theory Spec2Isabelle
  imports Main "HOL-Library.AList" "HOL-Library.Sublist"
begin

section \<open>Python values, exceptions and effects\<close>

text \<open>
  The connectors are Python programs that pass around the values produced by
  \<^verbatim>\<open>json.loads\<close>: \<^verbatim>\<open>None\<close>, booleans, integers, floats, strings, lists and
  dictionaries with string keys.  A dictionary is an association list in insertion
  order; \<^verbatim>\<open>json.loads\<close> never yields a dictionary with a repeated key.
  A float is a leaf that no function below inspects.
\<close>

datatype pyfloat = Finite int int | PosInf | NegInf | NaN

datatype json =
    JNull
  | JBool bool
  | JInt int
  | JFloat pyfloat
  | JStr string
  | JArr "json list"
  | JObj "(string \<times> json) list"

text \<open>
  The exceptions the modelled code raises or lets through.  The string carried by
  \<open>ValueError\<close>, \<open>RuntimeError\<close> and \<open>NotImplementedError\<close> is the fixed part of the
  message of the \<^verbatim>\<open>raise\<close> statement; \<open>KeyError\<close> carries the missing key.
\<close>

datatype py_error =
    ValueError string
  | TypeError
  | KeyError json
  | IndexError
  | RuntimeError string
  | NotImplementedError string
  | DoesNotExist

datatype level = DEBUG | INFO | WARNING

datatype log_arg = ArgNone | ArgStr string | ArgInt int | ArgJson json

text \<open>
  A message as the MQTT client library hands it to \<^verbatim>\<open>on_message\<close>.  The retain flag is
  an integer; Python's \<^verbatim>\<open>False\<close> and \<^verbatim>\<open>True\<close> are its values 0 and 1.
\<close>

record mqtt_message =
  msg_topic :: string
  msg_payload :: string
  msg_retain :: int

text \<open>
  Everything a function does besides returning: a call of \<^verbatim>\<open>logger.<level>(fmt, *args)\<close>,
  a temporary file written, a method called on the remote MQTT client, a call of the
  template's \<^verbatim>\<open>run_sensor_flow\<close> or \<^verbatim>\<open>CTemplate.__init__\<close>.  A computation is the list
  of its effects in program order and either the exception that ended it or its return
  value.
\<close>

datatype effect =
    Log level string "log_arg list"
  | WriteFile string string
  | NewClient json
  | TlsSet "string option"
  | UsernamePwSet string "string option"
  | Connect "string option" int
  | Subscribe json nat
  | RunSensorFlow mqtt_message
  | TemplateInit "(string \<times> (json \<times> json) list) list"

type_synonym 'a comp = "effect list \<times> (py_error + 'a)"

definition ret :: "'a \<Rightarrow> 'a comp" where
  "ret x = ([], Inr x)"

definition raise :: "py_error \<Rightarrow> 'a comp" where
  "raise e = ([], Inl e)"

definition emit :: "effect \<Rightarrow> unit comp" where
  "emit e = ([e], Inr ())"

definition bind :: "'a comp \<Rightarrow> ('a \<Rightarrow> 'b comp) \<Rightarrow> 'b comp" where
  "bind m f =
     (case m of
        (es, Inl e) \<Rightarrow> (es, Inl e)
      | (es, Inr x) \<Rightarrow> (case f x of (es', r) \<Rightarrow> (es @ es', r)))"

definition lift :: "py_error + 'a \<Rightarrow> 'a comp" where
  "lift r = ([], r)"

text \<open>
  What lies outside the repository and is called by it: \<^verbatim>\<open>json.loads\<close> (\<open>None\<close> stands
  for \<^verbatim>\<open>JSONDecodeError\<close>), the builtin \<^verbatim>\<open>int\<close> on a string (\<open>None\<close> for its
  \<^verbatim>\<open>ValueError\<close>), the name the operating system gives a \<^verbatim>\<open>NamedTemporaryFile\<close>, and
  whether a call into the MQTT client library, the file system or the connector template
  raises (\<open>None\<close>: it returns normally).
\<close>

record py_runtime =
  json_loads :: "string \<Rightarrow> json option"
  int_of_str :: "string \<Rightarrow> int option"
  tmp_name :: string
  external_raises :: "effect \<Rightarrow> py_error option"

text \<open>A call into external code: the call is recorded, then it returns or raises.\<close>

definition call :: "py_runtime \<Rightarrow> effect \<Rightarrow> unit comp" where
  "call rt e = bind (emit e) (\<lambda>_. case external_raises rt e of None \<Rightarrow> ret () | Some x \<Rightarrow> raise x)"

text \<open>The process environment, after \<^verbatim>\<open>load_dotenv\<close> has merged a \<^verbatim>\<open>.env\<close> file into it.\<close>

type_synonym environ = "string \<rightharpoonup> string"

subsection \<open>Operators of Python on these values\<close>

text \<open>\<^verbatim>\<open>k in v\<close> for a string \<open>k\<close>: a key of a dict, an element of a list, a substring of a string.\<close>

fun py_contains :: "string \<Rightarrow> json \<Rightarrow> py_error + bool" where
  "py_contains k (JObj kvs) = Inr (k \<in> set (map fst kvs))"
| "py_contains k (JArr xs) = Inr (JStr k \<in> set xs)"
| "py_contains k (JStr s) = Inr (sublist k s)"
| "py_contains k _ = Inl TypeError"

text \<open>Indexing a sequence with an integer: negative indices count from the end.\<close>

definition seq_index :: "'a list \<Rightarrow> int \<Rightarrow> py_error + 'a" where
  "seq_index xs i =
     (if 0 \<le> i then
        (if i < int (length xs) then Inr (xs ! nat i) else Inl IndexError)
      else
        (if - int (length xs) \<le> i then Inr (xs ! nat (int (length xs) + i))
         else Inl IndexError))"

text \<open>\<^verbatim>\<open>v[i]\<close>.  A \<^verbatim>\<open>bool\<close> is an \<^verbatim>\<open>int\<close> in Python; a list or dict is not hashable.\<close>

fun py_getitem :: "json \<Rightarrow> json \<Rightarrow> py_error + json" where
  "py_getitem (JObj kvs) (JStr k) =
     (case map_of kvs k of None \<Rightarrow> Inl (KeyError (JStr k)) | Some v \<Rightarrow> Inr v)"
| "py_getitem (JObj kvs) (JArr _) = Inl TypeError"
| "py_getitem (JObj kvs) (JObj _) = Inl TypeError"
| "py_getitem (JObj kvs) i = Inl (KeyError i)"
| "py_getitem (JArr xs) (JInt i) = seq_index xs i"
| "py_getitem (JArr xs) (JBool b) = seq_index xs (if b then 1 else 0)"
| "py_getitem (JArr xs) _ = Inl TypeError"
| "py_getitem (JStr s) (JInt i) = map_sum id (\<lambda>c. JStr [c]) (seq_index s i)"
| "py_getitem (JStr s) (JBool b) = map_sum id (\<lambda>c. JStr [c]) (seq_index s (if b then 1 else 0))"
| "py_getitem (JStr s) _ = Inl TypeError"
| "py_getitem _ _ = Inl TypeError"

text \<open>\<^verbatim>\<open>for x in v\<close>: the keys of a dict, the elements of a list, the characters of a string.\<close>

fun py_iter :: "json \<Rightarrow> py_error + json list" where
  "py_iter (JObj kvs) = Inr (map (\<lambda>kv. JStr (fst kv)) kvs)"
| "py_iter (JArr xs) = Inr xs"
| "py_iter (JStr s) = Inr (map (\<lambda>c. JStr [c]) s)"
| "py_iter _ = Inl TypeError"

text \<open>The truth value of \<^verbatim>\<open>os.getenv(name)\<close>: unset and empty are both false.\<close>

definition truthy :: "string option \<Rightarrow> bool" where
  "truthy v = (case v of None \<Rightarrow> False | Some s \<Rightarrow> s \<noteq> [])"

definition arg_of_env :: "string option \<Rightarrow> log_arg" where
  "arg_of_env v = (case v of None \<Rightarrow> ArgNone | Some s \<Rightarrow> ArgStr s)"

section \<open>The MQTT connector (services/connectors/mqtt-connector)\<close>

subsection \<open>SensorFlow.parse_raw_msg\<close>

record raw_msg =
  raw_topic :: string
  raw_payload :: string
  raw_timestamp :: int




subsection \<open>ActuatorFlow.send_command\<close>

definition send_command :: "string \<Rightarrow> string \<Rightarrow> unit comp" where
  "send_command datapoint_key datapoint_value =
     raise (NotImplementedError ''send_command has not been implemented.'')"

subsection \<open>Connector.parse_topic_mapping\<close>

text \<open>
  \<^verbatim>\<open>json.loads(os.getenv(...))\<close> raises \<^verbatim>\<open>TypeError\<close> when the variable is unset, and
  \<^verbatim>\<open>JSONDecodeError\<close>, turned into \<^verbatim>\<open>ValueError\<close>, when its value is not JSON.  The two
  membership tests are Python's \<^verbatim>\<open>not in\<close> on whatever value was parsed.
\<close>

definition not_valid_json :: string where
  "not_valid_json = ''REMOTE_MQTT_BROKER_TOPIC_MAPPING is not a valid JSON string. REMOTE_MQTT_BROKER_TOPIC_MAPPING was: %s''"

definition expected_sensor_topics :: string where
  "expected_sensor_topics = ''Expected key sensor_topics in REMOTE_MQTT_BROKER_TOPIC_MAPPING but got instead:\<newline>%s''"

definition expected_actuator_topics :: string where
  "expected_actuator_topics = ''Expected key actuator_topics in REMOTE_MQTT_BROKER_TOPIC_MAPPING but got instead:\<newline>%s''"

definition parse_topic_mapping :: "py_runtime \<Rightarrow> environ \<Rightarrow> json comp" where
  "parse_topic_mapping rt env =
     (case env ''REMOTE_MQTT_BROKER_TOPIC_MAPPING'' of
        None \<Rightarrow> raise TypeError
      | Some s \<Rightarrow>
          (case json_loads rt s of
             None \<Rightarrow> raise (ValueError not_valid_json)
           | Some topic_mapping \<Rightarrow>
               bind (lift (py_contains ''sensor_topics'' topic_mapping)) (\<lambda>has_sensor.
               if \<not> has_sensor then raise (ValueError expected_sensor_topics)
               else
                 bind (lift (py_contains ''actuator_topics'' topic_mapping)) (\<lambda>has_actuator.
                 if \<not> has_actuator then raise (ValueError expected_actuator_topics)
                 else ret topic_mapping))))"

subsection \<open>Connector._handle_remote_mqtt_msg\<close>

definition handle_remote_mqtt_msg :: "py_runtime \<Rightarrow> mqtt_message \<Rightarrow> unit comp" where
  "handle_remote_mqtt_msg rt msg =
     bind (emit (Log DEBUG ''Handling incoming MQTT message from remote broker on topic: %s''
                   [ArgStr (msg_topic msg)])) (\<lambda>_.
     if msg_retain msg = 0 then call rt (RunSensorFlow msg)
     else emit (Log DEBUG ''Skipping retained message for topic: %s'' [ArgStr (msg_topic msg)]))"

subsection \<open>Connector.on_remote_connect\<close>

fun subscribe_topics :: "py_runtime \<Rightarrow> json list \<Rightarrow> unit comp" where
  "subscribe_topics rt [] = ret ()"
| "subscribe_topics rt (topic # topics) =
     bind (emit (Log INFO ''Subscribing to topic on remote broker: %s'' [ArgJson topic])) (\<lambda>_.
     bind (call rt (Subscribe topic 2)) (\<lambda>_.
     subscribe_topics rt topics))"

definition connection_failed :: string where
  "connection_failed = ''Connection to remote MQTT broker (%s:%s) failed. Error was: %s''"

definition on_remote_connect :: "py_runtime \<Rightarrow> environ \<Rightarrow> json \<Rightarrow> int \<Rightarrow> unit comp" where
  "on_remote_connect rt env topic_mapping rc =
     (if rc = 0 then
        bind (emit (Log INFO ''Connection to remote MQTT broker (%s:%s) successful''
                      [arg_of_env (env ''REMOTE_MQTT_BROKER_HOST''),
                       arg_of_env (env ''REMOTE_MQTT_BROKER_PORT'')])) (\<lambda>_.
        bind (lift (py_getitem topic_mapping (JStr ''sensor_topics''))) (\<lambda>sensor_topics.
        bind (lift (py_iter sensor_topics)) (\<lambda>topics.
        subscribe_topics rt topics)))
      else raise (RuntimeError connection_failed))"

subsection \<open>Connector.create_remote_mqtt_client\<close>

text \<open>
  The client object is known to the rest of the connector by its \<^verbatim>\<open>userdata\<close>, from which
  \<open>on_remote_connect\<close> reads the topic mapping.
\<close>

record mqtt_client =
  userdata_topic_mapping :: json

definition configure_tls :: "py_runtime \<Rightarrow> environ \<Rightarrow> unit comp" where
  "configure_tls rt env =
     (if env ''REMOTE_MQTT_BROKER_USE_TLS'' = Some ''TRUE'' then
        bind (emit (Log INFO ''Using TLS to encrypt connection.'' [])) (\<lambda>_.
        let ca_content = env ''REMOTE_MQTT_BROKER_CA_FILE'' in
        bind (if truthy ca_content then
                bind (emit (Log INFO ''Using CA file to check server certificate.'' [])) (\<lambda>_.
                bind (call rt (WriteFile (tmp_name rt) (the ca_content))) (\<lambda>_.
                ret (Some (tmp_name rt))))
              else ret None) (\<lambda>ca_file_fnp.
        call rt (TlsSet ca_file_fnp)))
      else ret ())"

definition configure_login :: "py_runtime \<Rightarrow> environ \<Rightarrow> unit comp" where
  "configure_login rt env =
     (let username = env ''REMOTE_MQTT_BROKER_USERNAME'' in
      if truthy username then
        bind (emit (Log INFO ''Using username %s for remote broker.'' [arg_of_env username])) (\<lambda>_.
        let password = env ''REMOTE_MQTT_BROKER_PASSWORD'' in
        bind (case password of
                None \<Rightarrow> ret ()
              | Some pw \<Rightarrow> emit (Log INFO ''Using password with length %s for remote broker''
                                   [ArgInt (int (length pw))])) (\<lambda>_.
        call rt (UsernamePwSet (the username) password)))
      else ret ())"

definition py_int :: "py_runtime \<Rightarrow> string option \<Rightarrow> int comp" where
  "py_int rt v =
     (case v of
        None \<Rightarrow> raise TypeError
      | Some s \<Rightarrow>
          (case int_of_str rt s of
             None \<Rightarrow> raise (ValueError ''invalid literal for int() with base 10'')
           | Some n \<Rightarrow> ret n))"

definition create_remote_mqtt_client :: "py_runtime \<Rightarrow> environ \<Rightarrow> json \<Rightarrow> mqtt_client comp" where
  "create_remote_mqtt_client rt env topic_mapping =
     bind (emit (Log INFO ''Configuring remote MQTT connection.'' [])) (\<lambda>_.
     bind (call rt (NewClient topic_mapping)) (\<lambda>_.
     bind (configure_tls rt env) (\<lambda>_.
     bind (configure_login rt env) (\<lambda>_.
     bind (emit (Log INFO ''Connecting to remote MQTT broker (%s:%s).''
                   [arg_of_env (env ''REMOTE_MQTT_BROKER_HOST''),
                    arg_of_env (env ''REMOTE_MQTT_BROKER_PORT'')])) (\<lambda>_.
     bind (py_int rt (env ''REMOTE_MQTT_BROKER_PORT'')) (\<lambda>port.
     bind (call rt (Connect (env ''REMOTE_MQTT_BROKER_HOST'') port)) (\<lambda>_.
     ret \<lparr>userdata_topic_mapping = topic_mapping\<rparr>)))))))"

subsection \<open>Connector.compute_actuator_datapoints\<close>

text \<open>
  The loop body reads \<^verbatim>\<open>actuator_topics[topic]["example_value"]\<close> and stores it under
  \<^verbatim>\<open>topic\<close>.  A topic that indexed \<^verbatim>\<open>actuator_topics\<close> is a string or an integer, so the
  store cannot fail.
\<close>

fun actuator_loop :: "json \<Rightarrow> json list \<Rightarrow> (json \<times> json) list \<Rightarrow> py_error + (json \<times> json) list" where
  "actuator_loop actuator_topics [] actuator_datapoints = Inr actuator_datapoints"
| "actuator_loop actuator_topics (topic # topics) actuator_datapoints =
     (case py_getitem actuator_topics topic of
        Inl e \<Rightarrow> Inl e
      | Inr cfg \<Rightarrow>
          (case py_getitem cfg (JStr ''example_value'') of
             Inl e \<Rightarrow> Inl e
           | Inr example_value \<Rightarrow>
               actuator_loop actuator_topics topics
                 (AList.update topic example_value actuator_datapoints)))"

definition compute_actuator_datapoints :: "json \<Rightarrow> py_error + (json \<times> json) list" where
  "compute_actuator_datapoints topic_mapping =
     (case py_getitem topic_mapping (JStr ''actuator_topics'') of
        Inl e \<Rightarrow> Inl e
      | Inr actuator_topics \<Rightarrow>
          (case py_iter actuator_topics of
             Inl e \<Rightarrow> Inl e
           | Inr topics \<Rightarrow> actuator_loop actuator_topics topics []))"

subsection \<open>Connector.__init__\<close>

text \<open>
  The constructor ends by calling \<^verbatim>\<open>CTemplate.__init__\<close> of the connector template with the
  keyword arguments it has assembled; the record keeps what the connector holds afterwards.
\<close>

datatype dispatcher = DispatchOnce | DispatchInInterval

record connector =
  parse_sensor_msgs_as_json :: bool
  remote_mqtt_client :: mqtt_client
  device_dispatcher :: dispatcher
  available_datapoints :: "(string \<times> (json \<times> json) list) list"

definition Connector_init :: "py_runtime \<Rightarrow> environ \<Rightarrow> connector comp" where
  "Connector_init rt env =
     bind (parse_topic_mapping rt env) (\<lambda>topic_mapping.
     let parse_json = (env ''REMOTE_MQTT_BROKER_PARSE_JSON'' = Some ''TRUE'') in
     bind (create_remote_mqtt_client rt env topic_mapping) (\<lambda>client.
     bind (lift (compute_actuator_datapoints topic_mapping)) (\<lambda>actuator_datapoints.
     let available = [(''sensor'', []), (''actuator'', actuator_datapoints)] in
     bind (call rt (TemplateInit available)) (\<lambda>_.
     ret \<lparr>parse_sensor_msgs_as_json = parse_json,
          remote_mqtt_client = client,
          device_dispatcher = DispatchOnce,
          available_datapoints = available\<rparr>))))"

section \<open>The admin interface (services/APIs/django): ConnectorAdmin.alive\<close>




section \<open>The KEBA P30 connector (services/connectors/keba-p30-connector)\<close>

text \<open>
  Modelled from the spec: the constructor of the charge-station connector, of which only
  the tests are among the sources.  The spec speaks of ``per-device locks keyed by device
  name'', ``an explicit concurrent map from device identifier to mutex'', ``never a global
  lock''; the test \<^verbatim>\<open>test_locks_created\<close> expects every name of the configured charge
  stations (the keys of \<^verbatim>\<open>KEBA_P30_CHARGE_STATIONS\<close>, a JSON object from name to host) in
  \<^verbatim>\<open>cn.keba_p30_locks\<close>, with a \<^verbatim>\<open>threading.Lock\<close> as value.  A lock is known by its
  identity: the n-th call of \<^verbatim>\<open>Lock()\<close> yields object number n.
\<close>

type_synonym lock = nat

fun create_locks :: "string list \<Rightarrow> lock \<Rightarrow> (string \<times> lock) list \<Rightarrow> (string \<times> lock) list" where
  "create_locks [] fresh locks = locks"
| "create_locks (name # names) fresh locks =
     create_locks names (Suc fresh) (AList.update name fresh locks)"

definition keba_p30_locks :: "(string \<times> string) list \<Rightarrow> (string \<times> lock) list" where
  "keba_p30_locks charge_stations = create_locks (map fst charge_stations) 0 []"

section \<open>Observations on a run\<close>

text \<open>The calls of \<^verbatim>\<open>run_sensor_flow\<close>, with the message passed as \<^verbatim>\<open>raw_data\<close>.\<close>

definition sensor_flow_runs :: "effect list \<Rightarrow> mqtt_message list" where
  "sensor_flow_runs es = concat (map (\<lambda>e. case e of RunSensorFlow m \<Rightarrow> [m] | _ \<Rightarrow> []) es)"

text \<open>The calls of \<^verbatim>\<open>client.subscribe\<close>, as pairs of topic and quality of service.\<close>

definition subscriptions :: "effect list \<Rightarrow> (json \<times> nat) list" where
  "subscriptions es = concat (map (\<lambda>e. case e of Subscribe t q \<Rightarrow> [(t, q)] | _ \<Rightarrow> []) es)"

text \<open>The arguments of the calls of \<^verbatim>\<open>tls_set\<close>, the files written, the warnings logged.\<close>

definition tls_calls :: "effect list \<Rightarrow> string option list" where
  "tls_calls es = concat (map (\<lambda>e. case e of TlsSet ca \<Rightarrow> [ca] | _ \<Rightarrow> []) es)"

definition files_written :: "effect list \<Rightarrow> (string \<times> string) list" where
  "files_written es = concat (map (\<lambda>e. case e of WriteFile p c \<Rightarrow> [(p, c)] | _ \<Rightarrow> []) es)"

definition warnings :: "effect list \<Rightarrow> effect list" where
  "warnings es = filter (\<lambda>e. case e of Log l _ _ \<Rightarrow> l = WARNING | _ \<Rightarrow> False) es"

text \<open>The part of \<open>create_remote_mqtt_client\<close> that follows the configuration of TLS.\<close>

definition after_tls :: "py_runtime \<Rightarrow> environ \<Rightarrow> json \<Rightarrow> mqtt_client comp" where
  "after_tls rt env topic_mapping =
     bind (configure_login rt env) (\<lambda>_.
     bind (emit (Log INFO ''Connecting to remote MQTT broker (%s:%s).''
                   [arg_of_env (env ''REMOTE_MQTT_BROKER_HOST''),
                    arg_of_env (env ''REMOTE_MQTT_BROKER_PORT'')])) (\<lambda>_.
     bind (py_int rt (env ''REMOTE_MQTT_BROKER_PORT'')) (\<lambda>port.
     bind (call rt (Connect (env ''REMOTE_MQTT_BROKER_HOST'') port)) (\<lambda>_.
     ret \<lparr>userdata_topic_mapping = topic_mapping\<rparr>))))"

section \<open>A concrete deployment\<close>

text \<open>
  Two settings of \<^verbatim>\<open>REMOTE_MQTT_BROKER_TOPIC_MAPPING\<close> and the values \<^verbatim>\<open>json.loads\<close>
  gives for them.  The decoder of the example runtime knows these two texts and rejects
  every other one; it is used on them and on texts that are not JSON.
\<close>

definition example_mapping_text :: string where
  \<open>example_mapping_text = ''{"sensor_topics": ["site/meter/power", "site/meter/energy"], "actuator_topics": {"site/charger/setpoint": {"example_value": "22.0"}}}''\<close>

definition example_mapping :: json where
  "example_mapping =
     JObj [(''sensor_topics'', JArr [JStr ''site/meter/power'', JStr ''site/meter/energy'']),
           (''actuator_topics'',
              JObj [(''site/charger/setpoint'', JObj [(''example_value'', JStr ''22.0'')])])]"

definition sensors_only_text :: string where
  \<open>sensors_only_text = ''{"sensor_topics": ["site/meter/power"]}''\<close>

definition sensors_only :: json where
  "sensors_only = JObj [(''sensor_topics'', JArr [JStr ''site/meter/power''])]"

definition example_loads :: "string \<Rightarrow> json option" where
  "example_loads = map_of [(example_mapping_text, example_mapping), (sensors_only_text, sensors_only)]"

definition example_rt :: py_runtime where
  "example_rt =
     \<lparr>json_loads = example_loads,
      int_of_str = map_of [(''1883'', 1883)],
      tmp_name = ''/tmp/tmpk3x9caq1'',
      external_raises = (\<lambda>_. None)\<rparr>"

definition example_env :: environ where
  "example_env =
     map_of [(''REMOTE_MQTT_BROKER_TOPIC_MAPPING'', example_mapping_text),
             (''REMOTE_MQTT_BROKER_HOST'', ''broker.example.org''),
             (''REMOTE_MQTT_BROKER_PORT'', ''1883'')]"

definition example_client_setup :: "effect list" where
  "example_client_setup =
     [Log INFO ''Configuring remote MQTT connection.'' [],
      NewClient example_mapping,
      Log INFO ''Connecting to remote MQTT broker (%s:%s).'' [ArgStr ''broker.example.org'', ArgStr ''1883''],
      Connect (Some ''broker.example.org'') 1883]"

definition example_available :: "(string \<times> (json \<times> json) list) list" where
  "example_available =
     [(''sensor'', []), (''actuator'', [(JStr ''site/charger/setpoint'', JStr ''22.0'')])]"

definition example_connector :: connector where
  "example_connector =
     \<lparr>parse_sensor_msgs_as_json = False,
      remote_mqtt_client = \<lparr>userdata_topic_mapping = example_mapping\<rparr>,
      device_dispatcher = DispatchOnce,
      available_datapoints = example_available\<rparr>"

definition example_raw :: raw_msg where
  "example_raw = \<lparr>raw_topic = ''site/meter/power'', raw_payload = ''21.5 kW'', raw_timestamp = 1618256642000\<rparr>"


section \<open>Properties\<close>

subsection \<open>Computations\<close>

lemma fst_bind: "fst (bind m f) = fst m @ (case snd m of Inl e \<Rightarrow> [] | Inr x \<Rightarrow> fst (f x))"
  by (auto simp: bind_def split: prod.splits sum.splits)

lemma snd_bind: "snd (bind m f) = (case snd m of Inl e \<Rightarrow> Inl e | Inr x \<Rightarrow> snd (f x))"
  by (auto simp: bind_def split: prod.splits sum.splits)

lemma bind_Inr:
  "bind m f = (es, Inr y) \<Longrightarrow> \<exists>es1 x es2. m = (es1, Inr x) \<and> f x = (es2, Inr y) \<and> es = es1 @ es2"
  by (auto simp: bind_def split: prod.splits sum.splits)

lemma fst_call: "fst (call rt e) = [e]"
  by (simp add: call_def bind_def emit_def ret_def raise_def split: option.splits)

lemma snd_call: "snd (call rt e) = (case external_raises rt e of None \<Rightarrow> Inr () | Some x \<Rightarrow> Inl x)"
  by (simp add: call_def bind_def emit_def ret_def raise_def split: option.splits)

lemmas comp_defs = bind_def ret_def raise_def emit_def lift_def call_def Let_def

lemmas example_defs =
  example_rt_def example_env_def example_loads_def example_mapping_def example_mapping_text_def
  sensors_only_text_def sensors_only_def example_client_setup_def example_available_def
  example_connector_def example_raw_def

subsection \<open>parse_raw_msg when the payload is not JSON\<close>




subsection \<open>Retained messages\<close>

text \<open>
  C2: \<open>handle_remote_mqtt_msg\<close> calls \<^verbatim>\<open>run_sensor_flow\<close> exactly once, with the message as
  \<^verbatim>\<open>raw_data\<close>, when the retain flag of the message is 0, and never when it is not 0.
\<close>

theorem handle_remote_mqtt_msg_retain:
  "sensor_flow_runs (fst (handle_remote_mqtt_msg rt msg)) =
     (if msg_retain msg = 0 then [msg] else [])"
  by (simp add: handle_remote_mqtt_msg_def sensor_flow_runs_def fst_bind fst_call emit_def)

theorem handle_remote_mqtt_msg_retain_witness:
  "sensor_flow_runs (fst (handle_remote_mqtt_msg example_rt
       \<lparr>msg_topic = ''site/meter/power'', msg_payload = ''21.5'', msg_retain = 0\<rparr>)) =
     [\<lparr>msg_topic = ''site/meter/power'', msg_payload = ''21.5'', msg_retain = 0\<rparr>] \<and>
   sensor_flow_runs (fst (handle_remote_mqtt_msg example_rt
       \<lparr>msg_topic = ''site/meter/power'', msg_payload = ''21.5'', msg_retain = 1\<rparr>)) = []"
  using handle_remote_mqtt_msg_retain [of example_rt
      "\<lparr>msg_topic = ''site/meter/power'', msg_payload = ''21.5'', msg_retain = 0\<rparr>"]
    handle_remote_mqtt_msg_retain [of example_rt
      "\<lparr>msg_topic = ''site/meter/power'', msg_payload = ''21.5'', msg_retain = 1\<rparr>"]
  by simp

subsection \<open>Liveness\<close>





subsection \<open>Subscriptions on connect\<close>

lemma subscriptions_append: "subscriptions (xs @ ys) = subscriptions xs @ subscriptions ys"
  by (simp add: subscriptions_def)

lemma subscribe_topics_all:
  "\<forall>t\<in>set topics. external_raises rt (Subscribe t 2) = None \<Longrightarrow>
   snd (subscribe_topics rt topics) = Inr () \<and>
   subscriptions (fst (subscribe_topics rt topics)) = map (\<lambda>t. (t, 2)) topics"
proof (induction topics)
  case Nil
  then show ?case by (simp add: ret_def subscriptions_def)
next
  case (Cons t ts)
  then show ?case
    by (simp add: fst_bind snd_bind fst_call snd_call emit_def subscriptions_append)
       (simp add: subscriptions_def)
qed

text \<open>
  C7: on return code 0, \<open>on_remote_connect\<close> calls \<^verbatim>\<open>client.subscribe(topic, qos=2)\<close> for
  every topic that iterating over \<^verbatim>\<open>topic_mapping["sensor_topics"]\<close> yields, in that order
  and nothing else, provided the client library accepts the calls; on any other return
  code it subscribes to nothing and raises \<^verbatim>\<open>RuntimeError\<close>.
\<close>

theorem on_remote_connect_subscribes:
  "(rc = 0 \<longrightarrow>
      py_getitem topic_mapping (JStr ''sensor_topics'') = Inr sensor_topics \<longrightarrow>
      py_iter sensor_topics = Inr topics \<longrightarrow>
      (\<forall>t\<in>set topics. external_raises rt (Subscribe t 2) = None) \<longrightarrow>
      subscriptions (fst (on_remote_connect rt env topic_mapping rc)) = map (\<lambda>t. (t, 2)) topics \<and>
      snd (on_remote_connect rt env topic_mapping rc) = Inr ()) \<and>
   (rc \<noteq> 0 \<longrightarrow>
      on_remote_connect rt env topic_mapping rc = ([], Inl (RuntimeError connection_failed)))"
  using subscribe_topics_all [of topics rt]
  by (auto simp: on_remote_connect_def fst_bind snd_bind emit_def lift_def raise_def
      subscriptions_append) (simp add: subscriptions_def)

theorem on_remote_connect_subscribes_witness:
  "subscriptions (fst (on_remote_connect example_rt example_env example_mapping 0)) =
     [(JStr ''site/meter/power'', 2), (JStr ''site/meter/energy'', 2)] \<and>
   snd (on_remote_connect example_rt example_env example_mapping 0) = Inr () \<and>
   on_remote_connect example_rt example_env example_mapping 5 =
     ([], Inl (RuntimeError connection_failed))"
proof -
  have 1: "py_getitem example_mapping (JStr ''sensor_topics'') =
      Inr (JArr [JStr ''site/meter/power'', JStr ''site/meter/energy''])"
    by (simp add: example_mapping_def)
  have 2: "py_iter (JArr [JStr ''site/meter/power'', JStr ''site/meter/energy'']) =
      Inr [JStr ''site/meter/power'', JStr ''site/meter/energy'']"
    by simp
  have 3: "\<forall>t\<in>set [JStr ''site/meter/power'', JStr ''site/meter/energy''].
      external_raises example_rt (Subscribe t 2) = None"
    by (simp add: example_rt_def)
  from on_remote_connect_subscribes [of 0 example_mapping
      "JArr [JStr ''site/meter/power'', JStr ''site/meter/energy'']"
      "[JStr ''site/meter/power'', JStr ''site/meter/energy'']" example_rt example_env]
    on_remote_connect_subscribes [of 5 example_mapping _ _ example_rt example_env] 1 2 3
  show ?thesis by simp
qed

subsection \<open>The topic mapping at startup\<close>




subsection \<open>The available datapoints at construction\<close>

lemma actuator_loop_spec:
  "actuator_loop at ts acc = Inr r \<Longrightarrow> distinct (map fst acc) \<Longrightarrow>
   distinct (map fst r) \<and> set (map fst r) = set (map fst acc) \<union> set ts \<and>
   (\<forall>t\<in>set ts. \<exists>cfg ev. py_getitem at t = Inr cfg \<and>
        py_getitem cfg (JStr ''example_value'') = Inr ev \<and> map_of r t = Some ev) \<and>
   (\<forall>t. t \<notin> set ts \<longrightarrow> map_of r t = map_of acc t)"
proof (induction ts arbitrary: acc)
  case Nil
  then show ?case by simp
next
  case (Cons t ts)
  from Cons.prems(1) obtain cfg ev where
    cfg: "py_getitem at t = Inr cfg" and
    ev: "py_getitem cfg (JStr ''example_value'') = Inr ev" and
    rest: "actuator_loop at ts (AList.update t ev acc) = Inr r"
    by (auto split: sum.splits)
  have d: "distinct (map fst (AList.update t ev acc))"
    using Cons.prems(2) by (rule distinct_update)
  note IH = Cons.IH [OF rest d]
  have keys: "set (map fst r) = set (map fst acc) \<union> set (t # ts)"
    using IH by (auto simp: dom_update)
  have here: "map_of r t = Some ev"
  proof (cases "t \<in> set ts")
    case True
    with IH cfg ev show ?thesis by fastforce
  next
    case False
    with IH have "map_of r t = map_of (AList.update t ev acc) t" by blast
    then show ?thesis by (simp add: update_conv')
  qed
  have others: "\<forall>u. u \<notin> set (t # ts) \<longrightarrow> map_of r u = map_of acc u"
    using IH by (simp add: update_conv')
  from IH keys here others cfg ev show ?case by auto
qed

lemma example_init:
  "Connector_init example_rt example_env =
     (example_client_setup @ [TemplateInit example_available], Inr example_connector)"
  by (simp add: Connector_init_def parse_topic_mapping_def create_remote_mqtt_client_def
      configure_tls_def configure_login_def py_int_def compute_actuator_datapoints_def
      example_defs comp_defs truthy_def arg_of_env_def)

text \<open>
  C3: a connector that has been constructed holds available datapoints with exactly the
  two subsets \<^verbatim>\<open>sensor\<close> and \<^verbatim>\<open>actuator\<close>; the sensor subset is empty, and the actuator
  subset has exactly one entry for every topic of \<^verbatim>\<open>topic_mapping["actuator_topics"]\<close>,
  which maps the topic to the \<^verbatim>\<open>example_value\<close> configured for it.
\<close>

theorem Connector_init_available_datapoints:
  assumes "Connector_init rt env = (es, Inr c)"
  shows "map fst (available_datapoints c) = [''sensor'', ''actuator''] \<and>
         map_of (available_datapoints c) ''sensor'' = Some [] \<and>
         (\<exists>tm actuator_topics topics ad.
            snd (parse_topic_mapping rt env) = Inr tm \<and>
            py_getitem tm (JStr ''actuator_topics'') = Inr actuator_topics \<and>
            py_iter actuator_topics = Inr topics \<and>
            map_of (available_datapoints c) ''actuator'' = Some ad \<and>
            distinct (map fst ad) \<and> set (map fst ad) = set topics \<and>
            (\<forall>t\<in>set topics. \<exists>cfg ev.
               py_getitem actuator_topics t = Inr cfg \<and>
               py_getitem cfg (JStr ''example_value'') = Inr ev \<and>
               map_of ad t = Some ev))"
proof -
  from assms obtain es1 tm client ad where
    tm: "parse_topic_mapping rt env = (es1, Inr tm)" and
    ad: "compute_actuator_datapoints tm = Inr ad" and
    c: "c = \<lparr>parse_sensor_msgs_as_json = (env ''REMOTE_MQTT_BROKER_PARSE_JSON'' = Some ''TRUE''),
             remote_mqtt_client = client,
             device_dispatcher = DispatchOnce,
             available_datapoints = [(''sensor'', []), (''actuator'', ad)]\<rparr>"
    unfolding Connector_init_def Let_def
    by (auto dest!: bind_Inr simp: lift_def ret_def)
  from ad obtain actuator_topics topics where
    at: "py_getitem tm (JStr ''actuator_topics'') = Inr actuator_topics" and
    topics: "py_iter actuator_topics = Inr topics" and
    loop: "actuator_loop actuator_topics topics [] = Inr ad"
    by (auto simp: compute_actuator_datapoints_def split: sum.splits)
  have "distinct (map fst ([] :: (json \<times> json) list))" by simp
  note spec = actuator_loop_spec [OF loop this]
  from spec have d: "distinct (map fst ad)" by blast
  from spec have k: "set (map fst ad) = set topics" by simp
  from spec have v: "\<forall>t\<in>set topics. \<exists>cfg ev. py_getitem actuator_topics t = Inr cfg \<and>
        py_getitem cfg (JStr ''example_value'') = Inr ev \<and> map_of ad t = Some ev"
    by blast
  have "snd (parse_topic_mapping rt env) = Inr tm" using tm by simp
  moreover have "map_of (available_datapoints c) ''actuator'' = Some ad" using c by simp
  ultimately have "\<exists>tm actuator_topics topics ad.
            snd (parse_topic_mapping rt env) = Inr tm \<and>
            py_getitem tm (JStr ''actuator_topics'') = Inr actuator_topics \<and>
            py_iter actuator_topics = Inr topics \<and>
            map_of (available_datapoints c) ''actuator'' = Some ad \<and>
            distinct (map fst ad) \<and> set (map fst ad) = set topics \<and>
            (\<forall>t\<in>set topics. \<exists>cfg ev.
               py_getitem actuator_topics t = Inr cfg \<and>
               py_getitem cfg (JStr ''example_value'') = Inr ev \<and>
               map_of ad t = Some ev)"
    using at topics d k v by blast
  moreover have "map fst (available_datapoints c) = [''sensor'', ''actuator'']"
    "map_of (available_datapoints c) ''sensor'' = Some []"
    using c by simp_all
  ultimately show ?thesis by blast
qed

theorem Connector_init_available_datapoints_witness:
  "snd (Connector_init example_rt example_env) = Inr example_connector \<and>
   map fst (available_datapoints example_connector) = [''sensor'', ''actuator''] \<and>
   map_of (available_datapoints example_connector) ''sensor'' = Some [] \<and>
   map_of (available_datapoints example_connector) ''actuator'' =
     Some [(JStr ''site/charger/setpoint'', JStr ''22.0'')]"
  using Connector_init_available_datapoints [OF example_init] example_init
  by (simp add: example_connector_def example_available_def)

subsection \<open>TLS towards the remote broker\<close>

lemma tls_calls_append: "tls_calls (xs @ ys) = tls_calls xs @ tls_calls ys"
  by (simp add: tls_calls_def)

lemma files_written_append: "files_written (xs @ ys) = files_written xs @ files_written ys"
  by (simp add: files_written_def)

lemma warnings_append: "warnings (xs @ ys) = warnings xs @ warnings ys"
  by (simp add: warnings_def)

lemma observers_Nil: "tls_calls [] = []" "files_written [] = []" "warnings [] = []"
  by (simp_all add: tls_calls_def files_written_def warnings_def)

lemma fst_configure_login:
  "tls_calls (fst (configure_login rt env)) = [] \<and>
   files_written (fst (configure_login rt env)) = [] \<and>
   warnings (fst (configure_login rt env)) = []"
  by (simp add: configure_login_def Let_def fst_bind snd_bind fst_call emit_def ret_def
      tls_calls_def files_written_def warnings_def split: option.splits)

lemma fst_py_int: "fst (py_int rt v) = []"
  by (simp add: py_int_def raise_def ret_def split: option.splits)

lemma after_tls_quiet:
  "tls_calls (fst (after_tls rt env tm)) = [] \<and>
   files_written (fst (after_tls rt env tm)) = [] \<and>
   warnings (fst (after_tls rt env tm)) = []"
  unfolding after_tls_def
  by (simp add: fst_bind tls_calls_append files_written_append warnings_append
      fst_configure_login fst_py_int fst_call emit_def ret_def split: sum.splits)
     (simp add: tls_calls_def files_written_def warnings_def)

lemma create_remote_mqtt_client_unfold:
  "create_remote_mqtt_client rt env tm =
     bind (emit (Log INFO ''Configuring remote MQTT connection.'' [])) (\<lambda>_.
     bind (call rt (NewClient tm)) (\<lambda>_.
     bind (configure_tls rt env) (\<lambda>_. after_tls rt env tm)))"
  by (simp add: create_remote_mqtt_client_def after_tls_def)

lemma configure_tls_no_ca:
  "env ''REMOTE_MQTT_BROKER_USE_TLS'' = Some ''TRUE'' \<Longrightarrow>
   \<not> truthy (env ''REMOTE_MQTT_BROKER_CA_FILE'') \<Longrightarrow>
   fst (configure_tls rt env) = [Log INFO ''Using TLS to encrypt connection.'' [], TlsSet None]"
  by (simp add: configure_tls_def Let_def fst_bind snd_bind fst_call emit_def ret_def)

lemma configure_tls_ca:
  "env ''REMOTE_MQTT_BROKER_USE_TLS'' = Some ''TRUE'' \<Longrightarrow>
   truthy (env ''REMOTE_MQTT_BROKER_CA_FILE'') \<Longrightarrow>
   external_raises rt (WriteFile (tmp_name rt) (the (env ''REMOTE_MQTT_BROKER_CA_FILE''))) = None \<Longrightarrow>
   fst (configure_tls rt env) =
     [Log INFO ''Using TLS to encrypt connection.'' [],
      Log INFO ''Using CA file to check server certificate.'' [],
      WriteFile (tmp_name rt) (the (env ''REMOTE_MQTT_BROKER_CA_FILE'')),
      TlsSet (Some (tmp_name rt))]"
  by (simp add: configure_tls_def Let_def fst_bind snd_bind fst_call snd_call emit_def ret_def)

text \<open>
  C5, as the code has it: with \<^verbatim>\<open>REMOTE_MQTT_BROKER_USE_TLS\<close> set to \<^verbatim>\<open>TRUE\<close>, a CA
  certificate given as PEM content is written to a temporary file and \<^verbatim>\<open>tls_set\<close> is
  called once, with the path of that file; with no CA content (unset or empty) nothing
  is written and \<^verbatim>\<open>tls_set\<close> is called once, with no CA file.  In neither case does
  \<open>create_remote_mqtt_client\<close> log a warning.
\<close>

theorem create_remote_mqtt_client_tls:
  assumes "env ''REMOTE_MQTT_BROKER_USE_TLS'' = Some ''TRUE''"
    and "external_raises rt (NewClient tm) = None"
  shows "(truthy (env ''REMOTE_MQTT_BROKER_CA_FILE'') \<longrightarrow>
            external_raises rt (WriteFile (tmp_name rt) (the (env ''REMOTE_MQTT_BROKER_CA_FILE''))) = None \<longrightarrow>
            files_written (fst (create_remote_mqtt_client rt env tm)) =
              [(tmp_name rt, the (env ''REMOTE_MQTT_BROKER_CA_FILE''))] \<and>
            tls_calls (fst (create_remote_mqtt_client rt env tm)) = [Some (tmp_name rt)] \<and>
            warnings (fst (create_remote_mqtt_client rt env tm)) = []) \<and>
         (\<not> truthy (env ''REMOTE_MQTT_BROKER_CA_FILE'') \<longrightarrow>
            files_written (fst (create_remote_mqtt_client rt env tm)) = [] \<and>
            tls_calls (fst (create_remote_mqtt_client rt env tm)) = [None] \<and>
            warnings (fst (create_remote_mqtt_client rt env tm)) = [])"
proof -
  have shape: "fst (create_remote_mqtt_client rt env tm) =
      Log INFO ''Configuring remote MQTT connection.'' [] # NewClient tm #
      fst (configure_tls rt env) @
      (case snd (configure_tls rt env) of Inl e \<Rightarrow> [] | Inr _ \<Rightarrow> fst (after_tls rt env tm))"
    using assms(2)
    by (simp add: create_remote_mqtt_client_unfold fst_bind snd_bind fst_call snd_call emit_def)
  have tail: "tls_calls (case snd (configure_tls rt env) of Inl e \<Rightarrow> [] | Inr _ \<Rightarrow> fst (after_tls rt env tm)) = []"
    "files_written (case snd (configure_tls rt env) of Inl e \<Rightarrow> [] | Inr _ \<Rightarrow> fst (after_tls rt env tm)) = []"
    "warnings (case snd (configure_tls rt env) of Inl e \<Rightarrow> [] | Inr _ \<Rightarrow> fst (after_tls rt env tm)) = []"
    by (simp_all add: after_tls_quiet observers_Nil split: sum.splits)
  have head: "tls_calls (Log INFO ''Configuring remote MQTT connection.'' [] # NewClient tm # xs) = tls_calls xs"
    "files_written (Log INFO ''Configuring remote MQTT connection.'' [] # NewClient tm # xs) = files_written xs"
    "warnings (Log INFO ''Configuring remote MQTT connection.'' [] # NewClient tm # xs) = warnings xs"
    for xs
    by (simp_all add: tls_calls_def files_written_def warnings_def)
  have obs: "files_written (fst (create_remote_mqtt_client rt env tm)) =
        files_written (fst (configure_tls rt env))"
    "tls_calls (fst (create_remote_mqtt_client rt env tm)) = tls_calls (fst (configure_tls rt env))"
    "warnings (fst (create_remote_mqtt_client rt env tm)) = warnings (fst (configure_tls rt env))"
    by (simp_all add: shape head files_written_append tls_calls_append warnings_append tail)
  show ?thesis
  proof (intro conjI impI)
    assume ca: "truthy (env ''REMOTE_MQTT_BROKER_CA_FILE'')"
      and w: "external_raises rt (WriteFile (tmp_name rt) (the (env ''REMOTE_MQTT_BROKER_CA_FILE''))) = None"
    note t = configure_tls_ca [OF assms(1) ca w]
    show "files_written (fst (create_remote_mqtt_client rt env tm)) =
              [(tmp_name rt, the (env ''REMOTE_MQTT_BROKER_CA_FILE''))]"
      unfolding obs t by (simp add: files_written_def)
    show "tls_calls (fst (create_remote_mqtt_client rt env tm)) = [Some (tmp_name rt)]"
      unfolding obs t by (simp add: tls_calls_def)
    show "warnings (fst (create_remote_mqtt_client rt env tm)) = []"
      unfolding obs t by (simp add: warnings_def)
  next
    assume ca: "\<not> truthy (env ''REMOTE_MQTT_BROKER_CA_FILE'')"
    note t = configure_tls_no_ca [OF assms(1) ca]
    show "files_written (fst (create_remote_mqtt_client rt env tm)) = []"
      unfolding obs t by (simp add: files_written_def)
    show "tls_calls (fst (create_remote_mqtt_client rt env tm)) = [None]"
      unfolding obs t by (simp add: tls_calls_def)
    show "warnings (fst (create_remote_mqtt_client rt env tm)) = []"
      unfolding obs t by (simp add: warnings_def)
  qed
qed

theorem create_remote_mqtt_client_tls_witness:
  "files_written (fst (create_remote_mqtt_client example_rt
       (example_env(''REMOTE_MQTT_BROKER_USE_TLS'' \<mapsto> ''TRUE'',
                    ''REMOTE_MQTT_BROKER_CA_FILE'' \<mapsto> ''-----BEGIN CERTIFICATE-----''))
       example_mapping)) = [(''/tmp/tmpk3x9caq1'', ''-----BEGIN CERTIFICATE-----'')] \<and>
   tls_calls (fst (create_remote_mqtt_client example_rt
       (example_env(''REMOTE_MQTT_BROKER_USE_TLS'' \<mapsto> ''TRUE'',
                    ''REMOTE_MQTT_BROKER_CA_FILE'' \<mapsto> ''-----BEGIN CERTIFICATE-----''))
       example_mapping)) = [Some ''/tmp/tmpk3x9caq1''] \<and>
   tls_calls (fst (create_remote_mqtt_client example_rt
       (example_env(''REMOTE_MQTT_BROKER_USE_TLS'' \<mapsto> ''TRUE'',
                    ''REMOTE_MQTT_BROKER_CA_FILE'' \<mapsto> ''''))
       example_mapping)) = [None]"
proof -
  have raises: "external_raises example_rt e = None" for e
    by (simp add: example_rt_def)
  have tmp: "tmp_name example_rt = ''/tmp/tmpk3x9caq1''"
    by (simp add: example_rt_def)
  from create_remote_mqtt_client_tls
      [of "example_env(''REMOTE_MQTT_BROKER_USE_TLS'' \<mapsto> ''TRUE'',
                       ''REMOTE_MQTT_BROKER_CA_FILE'' \<mapsto> ''-----BEGIN CERTIFICATE-----'')"
          example_rt example_mapping]
    create_remote_mqtt_client_tls
      [of "example_env(''REMOTE_MQTT_BROKER_USE_TLS'' \<mapsto> ''TRUE'',
                       ''REMOTE_MQTT_BROKER_CA_FILE'' \<mapsto> '''')"
          example_rt example_mapping]
  show ?thesis by (simp add: raises tmp truthy_def)
qed

text \<open>
  C5 as stated fails: with TLS enabled and no CA content the run of
  \<open>create_remote_mqtt_client\<close> logs at level INFO only; there is no warning.
\<close>

theorem tls_without_ca_logs_no_warning:
  "fst (create_remote_mqtt_client example_rt
         (example_env(''REMOTE_MQTT_BROKER_USE_TLS'' \<mapsto> ''TRUE'')) example_mapping) =
     [Log INFO ''Configuring remote MQTT connection.'' [],
      NewClient example_mapping,
      Log INFO ''Using TLS to encrypt connection.'' [],
      TlsSet None,
      Log INFO ''Connecting to remote MQTT broker (%s:%s).'' [ArgStr ''broker.example.org'', ArgStr ''1883''],
      Connect (Some ''broker.example.org'') 1883] \<and>
   warnings (fst (create_remote_mqtt_client example_rt
         (example_env(''REMOTE_MQTT_BROKER_USE_TLS'' \<mapsto> ''TRUE'')) example_mapping)) = []"
  by (simp add: create_remote_mqtt_client_def configure_tls_def configure_login_def py_int_def
      warnings_def example_rt_def example_env_def comp_defs truthy_def arg_of_env_def)

subsection \<open>send_command\<close>

lemma actuator_loop_succeeds:
  "\<forall>cfg\<in>snd ` set ats. \<exists>ev. py_getitem cfg (JStr ''example_value'') = Inr ev \<Longrightarrow>
   set ks \<subseteq> fst ` set ats \<Longrightarrow>
   \<exists>ad. actuator_loop (JObj ats) (map JStr ks) acc = Inr ad"
proof (induction ks arbitrary: acc)
  case Nil
  then show ?case by simp
next
  case (Cons k ks)
  from Cons.prems(2) obtain cfg where cfg: "map_of ats k = Some cfg"
    by (cases "map_of ats k") (auto simp: map_of_eq_None_iff)
  then have "cfg \<in> snd ` set ats" by (force dest: map_of_SomeD)
  with Cons.prems(1) obtain ev where "py_getitem cfg (JStr ''example_value'') = Inr ev"
    by blast
  with cfg have step: "actuator_loop (JObj ats) (map JStr (k # ks)) acc =
      actuator_loop (JObj ats) (map JStr ks) (AList.update (JStr k) ev acc)"
    by simp
  have "set ks \<subseteq> fst ` set ats" using Cons.prems(2) by simp
  from Cons.IH [OF Cons.prems(1) this] show ?case unfolding step by blast
qed

lemma snd_configure_tls:
  "\<forall>e. external_raises rt e = None \<Longrightarrow> snd (configure_tls rt env) = Inr ()"
  by (simp add: configure_tls_def Let_def snd_bind snd_call emit_def ret_def)

lemma snd_configure_login:
  "\<forall>e. external_raises rt e = None \<Longrightarrow> snd (configure_login rt env) = Inr ()"
  by (cases "env ''REMOTE_MQTT_BROKER_PASSWORD''")
     (simp_all add: configure_login_def Let_def snd_bind snd_call emit_def ret_def)

lemma snd_py_int:
  "v = Some p \<Longrightarrow> int_of_str rt p = Some n \<Longrightarrow> snd (py_int rt v) = Inr n"
  by (simp add: py_int_def ret_def)

lemma snd_create_remote_mqtt_client:
  "\<forall>e. external_raises rt e = None \<Longrightarrow> env ''REMOTE_MQTT_BROKER_PORT'' = Some p \<Longrightarrow>
   int_of_str rt p = Some n \<Longrightarrow>
   snd (create_remote_mqtt_client rt env tm) = Inr \<lparr>userdata_topic_mapping = tm\<rparr>"
  by (simp add: create_remote_mqtt_client_def snd_bind snd_call snd_configure_tls
      snd_configure_login snd_py_int emit_def ret_def)

text \<open>
  Construction goes through when the topic mapping is a JSON object with both keys, every
  actuator topic is configured with an \<^verbatim>\<open>example_value\<close>, the port is a number, and no
  external call raises.
\<close>

lemma Connector_init_succeeds:
  assumes s: "env ''REMOTE_MQTT_BROKER_TOPIC_MAPPING'' = Some s" "json_loads rt s = Some (JObj kvs)"
    and st: "map_of kvs ''sensor_topics'' = Some sensor_topics"
    and at: "map_of kvs ''actuator_topics'' = Some (JObj ats)"
    and cfgs: "\<forall>cfg\<in>snd ` set ats. \<exists>ev. py_getitem cfg (JStr ''example_value'') = Inr ev"
    and port: "env ''REMOTE_MQTT_BROKER_PORT'' = Some p" "int_of_str rt p = Some n"
    and ext: "\<forall>e. external_raises rt e = None"
  shows "\<exists>c. snd (Connector_init rt env) = Inr c"
proof -
  have "(''sensor_topics'', sensor_topics) \<in> set kvs" "(''actuator_topics'', JObj ats) \<in> set kvs"
    using st at by (auto dest: map_of_SomeD)
  then have keys: "''sensor_topics'' \<in> fst ` set kvs" "''actuator_topics'' \<in> fst ` set kvs"
    by (auto simp: image_iff) force+
  have tm: "parse_topic_mapping rt env = ([], Inr (JObj kvs))"
    using s keys by (simp add: parse_topic_mapping_def bind_def lift_def ret_def)
  from actuator_loop_succeeds [OF cfgs, of "map fst ats" "[]"] obtain ad where
    "actuator_loop (JObj ats) (map JStr (map fst ats)) [] = Inr ad" by auto
  then have ad: "compute_actuator_datapoints (JObj kvs) = Inr ad"
    using at by (simp add: compute_actuator_datapoints_def comp_def)
  show ?thesis
    using tm ad snd_create_remote_mqtt_client [of rt env p n "JObj kvs"] ext port
    by (simp add: Connector_init_def Let_def snd_bind snd_call lift_def ret_def)
qed

text \<open>
  C8, as the code has it: construction does not look at \<open>send_command\<close>.  On every well
  formed configuration (as above) the constructor returns a connector, and after that
  every call of \<open>send_command\<close>, whatever the datapoint key and the value, raises
  \<^verbatim>\<open>NotImplementedError\<close>: the missing implementation shows at the first command, at runtime.
\<close>

theorem send_command_unimplemented:
  assumes "env ''REMOTE_MQTT_BROKER_TOPIC_MAPPING'' = Some s" and "json_loads rt s = Some (JObj kvs)"
    and "map_of kvs ''sensor_topics'' = Some sensor_topics"
    and "map_of kvs ''actuator_topics'' = Some (JObj ats)"
    and "\<forall>cfg\<in>snd ` set ats. \<exists>ev. py_getitem cfg (JStr ''example_value'') = Inr ev"
    and "env ''REMOTE_MQTT_BROKER_PORT'' = Some p" and "int_of_str rt p = Some n"
    and "\<forall>e. external_raises rt e = None"
  shows "(\<exists>c. snd (Connector_init rt env) = Inr c) \<and>
         send_command datapoint_key datapoint_value =
           ([], Inl (NotImplementedError ''send_command has not been implemented.''))"
  using Connector_init_succeeds [of env s rt kvs sensor_topics ats p n] assms
  by (simp add: send_command_def raise_def)

theorem send_command_unimplemented_witness:
  "(\<exists>c. snd (Connector_init example_rt example_env) = Inr c) \<and>
   send_command ''site/charger/setpoint'' ''16.0'' =
     ([], Inl (NotImplementedError ''send_command has not been implemented.''))"
proof -
  have 1: "example_env ''REMOTE_MQTT_BROKER_TOPIC_MAPPING'' = Some example_mapping_text"
    by (simp add: example_env_def)
  have 2: "json_loads example_rt example_mapping_text =
      Some (JObj [(''sensor_topics'', JArr [JStr ''site/meter/power'', JStr ''site/meter/energy'']),
                  (''actuator_topics'',
                     JObj [(''site/charger/setpoint'', JObj [(''example_value'', JStr ''22.0'')])])])"
    by (simp add: example_defs)
  have 3: "\<forall>cfg\<in>snd ` set [(''site/charger/setpoint'', JObj [(''example_value'', JStr ''22.0'')])].
      \<exists>ev. py_getitem cfg (JStr ''example_value'') = Inr ev"
    by simp
  have 4: "example_env ''REMOTE_MQTT_BROKER_PORT'' = Some ''1883''"
    by (simp add: example_env_def)
  have 5: "int_of_str example_rt ''1883'' = Some 1883"
    by (simp add: example_rt_def)
  have 6: "\<forall>e. external_raises example_rt e = None"
    by (simp add: example_rt_def)
  from send_command_unimplemented
      [of example_env example_mapping_text example_rt _
          "JArr [JStr ''site/meter/power'', JStr ''site/meter/energy'']"
          "[(''site/charger/setpoint'', JObj [(''example_value'', JStr ''22.0'')])]"
          "''1883''" 1883 "''site/charger/setpoint''" "''16.0''", OF 1 2 _ _ 3 4 5 6]
  show ?thesis by simp
qed

text \<open>
  C8 as stated fails: the example deployment passes startup, and the command for its
  actuator datapoint then reaches the unimplemented \<open>send_command\<close>.
\<close>

theorem send_command_reached_at_runtime:
  "snd (Connector_init example_rt example_env) = Inr example_connector \<and>
   map_of (available_datapoints example_connector) ''actuator'' =
     Some [(JStr ''site/charger/setpoint'', JStr ''22.0'')] \<and>
   snd (send_command ''site/charger/setpoint'' ''22.0'') =
     Inl (NotImplementedError ''send_command has not been implemented.'')"
  by (simp add: example_init example_connector_def example_available_def send_command_def raise_def)

subsection \<open>One lock for each charge station\<close>

lemma snd_update_subset: "snd ` set (AList.update k v al) \<subseteq> insert v (snd ` set al)"
  by (induction al) auto

lemma distinct_snd_update:
  "distinct (map snd al) \<Longrightarrow> v \<notin> snd ` set al \<Longrightarrow> distinct (map snd (AList.update k v al))"
proof (induction al)
  case Nil
  then show ?case by simp
next
  case (Cons a al)
  then show ?case using snd_update_subset [of k v al] by (cases a) (auto simp: image_iff)
qed

lemma create_locks_spec:
  "distinct (map fst locks) \<Longrightarrow> distinct (map snd locks) \<Longrightarrow> \<forall>l\<in>snd ` set locks. l < fresh \<Longrightarrow>
   distinct (map fst (create_locks names fresh locks)) \<and>
   distinct (map snd (create_locks names fresh locks)) \<and>
   fst ` set (create_locks names fresh locks) = set names \<union> fst ` set locks"
proof (induction names arbitrary: fresh locks)
  case Nil
  then show ?case by simp
next
  case (Cons name names)
  have 1: "distinct (map fst (AList.update name fresh locks))"
    using Cons.prems(1) by (rule distinct_update)
  have 2: "distinct (map snd (AList.update name fresh locks))"
    using Cons.prems(2,3) by (intro distinct_snd_update) auto
  have 3: "\<forall>l\<in>snd ` set (AList.update name fresh locks). l < Suc fresh"
  proof
    fix l assume "l \<in> snd ` set (AList.update name fresh locks)"
    with snd_update_subset [of name fresh locks] have "l = fresh \<or> l \<in> snd ` set locks" by blast
    with Cons.prems(3) show "l < Suc fresh" by (auto simp: less_Suc_eq)
  qed
  from Cons.IH [OF 1 2 3] show ?case by (auto simp: dom_update)
qed

text \<open>
  C9: the locks created for the configured charge stations form a map whose keys are
  exactly the names of the stations, with one entry for each name, and no two entries
  hold the same lock: there are as many locks as stations, never one lock for all.
\<close>

theorem keba_p30_locks_per_station:
  "fst ` set (keba_p30_locks charge_stations) = fst ` set charge_stations \<and>
   distinct (map fst (keba_p30_locks charge_stations)) \<and>
   distinct (map snd (keba_p30_locks charge_stations)) \<and>
   length (keba_p30_locks charge_stations) = card (fst ` set charge_stations)"
proof -
  from create_locks_spec [of "[]" 0 "map fst charge_stations"] have
    k: "fst ` set (keba_p30_locks charge_stations) = fst ` set charge_stations" and
    d: "distinct (map fst (keba_p30_locks charge_stations))" and
    l: "distinct (map snd (keba_p30_locks charge_stations))"
    by (simp_all add: keba_p30_locks_def)
  from d have "length (keba_p30_locks charge_stations) =
      card (set (map fst (keba_p30_locks charge_stations)))"
    using distinct_card [of "map fst (keba_p30_locks charge_stations)"] by simp
  with k have "length (keba_p30_locks charge_stations) = card (fst ` set charge_stations)"
    by simp
  with k d l show ?thesis by blast
qed

theorem keba_p30_locks_per_station_witness:
  "keba_p30_locks [(''test_1'', ''localhost''), (''test_2'', ''127.0.0.1'')] =
     [(''test_1'', 0), (''test_2'', 1)] \<and>
   distinct (map snd (keba_p30_locks [(''test_1'', ''localhost''), (''test_2'', ''127.0.0.1'')])) \<and>
   length (keba_p30_locks [(''test_1'', ''localhost''), (''test_2'', ''127.0.0.1'')]) = 2"
  using keba_p30_locks_per_station [of "[(''test_1'', ''localhost''), (''test_2'', ''127.0.0.1'')]"]
  by (simp add: keba_p30_locks_def)

end
